theory Spec2Isabelle
  imports Main "HOL-Library.Word"
begin

section \<open>The signing client of \<^verbatim>\<open>client/client.go\<close>\<close>

text \<open>
  A shallow embedding of package \<^verbatim>\<open>client\<close>: the constructor \<^verbatim>\<open>NewClient\<close>, the
  attempt function \<^verbatim>\<open>sign\<close> and the retrying entry point \<^verbatim>\<open>Sign\<close>. The network, the
  clock and the backoff controller are the environment: every attempt of a run is
  described by an \<open>attempt\<close> value saying what the HTTP client and the controller
  answer, and each function returns, beside its Go results, the list of effects it
  caused (requests sent, body reads, callbacks, sleeps).
\<close>

subsection \<open>Basic types\<close>

type_synonym byte = "8 word"

text \<open>\<^verbatim>\<open>time.Duration\<close> counts nanoseconds; no computation here comes near its 64-bit range.\<close>

type_synonym Duration = int

definition Second :: Duration where
  "Second = 1000000000"

text \<open>\<^verbatim>\<open>const MaxHttpDownloadSize = 768\<close> (line 17).\<close>

definition MaxHttpDownloadSize :: int where
  "MaxHttpDownloadSize = 768"

subsection \<open>Error values\<close>

text \<open>
  The error values that flow through the package:
  \<^item> \<open>Retryable s\<close> is the package's own \<^verbatim>\<open>type Retryable string\<close> (lines 21-26), whose only
    method is \<^verbatim>\<open>Error()\<close>;
  \<^item> \<open>Errorf s\<close> is the result of \<^verbatim>\<open>fmt.Errorf\<close> with a format that has no \<^verbatim>\<open>%w\<close>: a plain
    message;
  \<^item> \<open>Foreign s t\<close> is an error produced outside the package (net/http, io,
    encoding/json) with message \<open>s\<close>; \<open>t\<close> is what \<^verbatim>\<open>os.IsTimeout\<close> reports for it. Such an
    error holds no \<^verbatim>\<open>Retryable\<close> in its chain;
  \<^item> \<open>PermanentError e\<close> is \<^verbatim>\<open>*backoff.PermanentError{Err: e}\<close>, which \<^verbatim>\<open>backoff.Permanent\<close>
    builds.
\<close>

datatype error =
    Retryable string
  | Errorf string
  | Foreign string bool
  | PermanentError error

text \<open>\<^verbatim>\<open>io.EOF\<close>.\<close>

definition EOF :: error where
  "EOF = Foreign ''EOF'' False"

text \<open>\<^verbatim>\<open>errors.Unwrap\<close>: only \<^verbatim>\<open>*backoff.PermanentError\<close> has an \<^verbatim>\<open>Unwrap\<close> method.\<close>

fun Unwrap :: "error \<Rightarrow> error option" where
  "Unwrap (PermanentError e) = Some e"
| "Unwrap (Retryable s) = None"
| "Unwrap (Errorf s) = None"
| "Unwrap (Foreign s t) = None"

text \<open>\<^verbatim>\<open>errors.As(err, &retryable)\<close> with \<^verbatim>\<open>var retryable Retryable\<close>: walks the chain of \<open>err\<close>.\<close>

fun errors_As_Retryable :: "error \<Rightarrow> bool" where
  "errors_As_Retryable (Retryable s) = True"
| "errors_As_Retryable (PermanentError e) = errors_As_Retryable e"
| "errors_As_Retryable (Errorf s) = False"
| "errors_As_Retryable (Foreign s t) = False"

text \<open>
  \<^verbatim>\<open>errors.As(err, &permanent)\<close> with \<^verbatim>\<open>var permanent *PermanentError\<close>: the first
  \<^verbatim>\<open>PermanentError\<close> of the chain, if any.
\<close>

fun errors_As_Permanent :: "error \<Rightarrow> error option" where
  "errors_As_Permanent (PermanentError e) = Some e"
| "errors_As_Permanent (Retryable s) = None"
| "errors_As_Permanent (Errorf s) = None"
| "errors_As_Permanent (Foreign s t) = None"

text \<open>\<^verbatim>\<open>os.IsTimeout\<close>: the error's own \<^verbatim>\<open>Timeout()\<close> method; it does not follow \<^verbatim>\<open>Unwrap\<close>.\<close>

fun IsTimeout :: "error \<Rightarrow> bool" where
  "IsTimeout (Foreign s t) = t"
| "IsTimeout (Retryable s) = False"
| "IsTimeout (Errorf s) = False"
| "IsTimeout (PermanentError e) = False"

text \<open>\<^verbatim>\<open>backoff.Permanent\<close>: wraps a non-nil error, passes \<^verbatim>\<open>nil\<close> through.\<close>

fun Permanent :: "error option \<Rightarrow> error option" where
  "Permanent None = None"
| "Permanent (Some e) = Some (PermanentError e)"

subsection \<open>Formatting \<^verbatim>\<open>%d\<close>\<close>

text \<open>The decimal digits of a number, as \<^verbatim>\<open>%d\<close> prints them, and a sign for a negative one.\<close>

fun nat_digits :: "nat \<Rightarrow> string" where
  "nat_digits n =
     (if n < 10 then [''0123456789'' ! n]
      else nat_digits (n div 10) @ [''0123456789'' ! (n mod 10)])"

declare nat_digits.simps [simp del]

definition Itoa :: "int \<Rightarrow> string" where
  "Itoa i = (if i < 0 then CHR ''-'' # nat_digits (nat (- i)) else nat_digits (nat i))"

subsection \<open>URL-safe base64\<close>

text \<open>
  \<^verbatim>\<open>base64.URLEncoding\<close>: the alphabet of RFC 4648, section 5, with padding character
  \<^verbatim>\<open>=\<close>.
\<close>

definition encodeURL :: string where
  "encodeURL = ''ABCDEFGHIJKLMNOPQRSTUVWXYZabcdefghijklmnopqrstuvwxyz0123456789-_''"

definition padChar :: char where
  "padChar = CHR ''=''"

definition enc :: "nat \<Rightarrow> char" where
  "enc i = encodeURL ! i"

text \<open>
  Modelled from the spec: \<^verbatim>\<open>base64.URLEncoding.EncodeToString\<close> belongs to Go's standard
  library and is not under src/; the spec names it "the URL-safe base64 encoding of
  Digest". Three source bytes form a 24-bit value (\<^verbatim>\<open>b0<<16 | b1<<8 | b2\<close>, written
  here with \<open>*\<close> and \<open>+\<close>) that is cut into four 6-bit indices
  (\<^verbatim>\<open>val>>18&0x3F\<close>, ..., written with \<open>div\<close> and \<open>mod\<close>); a last block of one or
  two bytes is padded.
\<close>

fun EncodeToString :: "byte list \<Rightarrow> string" where
  "EncodeToString (b0 # b1 # b2 # src) =
     (let val = unat b0 * 65536 + unat b1 * 256 + unat b2
      in enc (val div 262144 mod 64) # enc (val div 4096 mod 64) #
         enc (val div 64 mod 64) # enc (val mod 64) # EncodeToString src)"
| "EncodeToString [b0, b1] =
     (let val = unat b0 * 65536 + unat b1 * 256
      in [enc (val div 262144 mod 64), enc (val div 4096 mod 64),
          enc (val div 64 mod 64), padChar])"
| "EncodeToString [b0] =
     (let val = unat b0 * 65536
      in [enc (val div 262144 mod 64), enc (val div 4096 mod 64), padChar, padChar])"
| "EncodeToString [] = []"

text \<open>The reverse table: the index of a character of the alphabet.\<close>

definition dec :: "char \<Rightarrow> nat option" where
  "dec ch = map_of (zip encodeURL [0..<64]) ch"

text \<open>
  Modelled from the spec: URL-safe base64 decoding, which this repository leaves to
  the remote service (and Go to \<^verbatim>\<open>base64.URLEncoding.DecodeString\<close>), is not under
  src/. It is the padded decoder of RFC 4648: four characters give three bytes; a
  last group ending in one or two padding characters gives two or one.
\<close>

fun DecodeString :: "string \<Rightarrow> byte list option" where
  "DecodeString [] = Some []"
| "DecodeString (c0 # c1 # c2 # c3 # cs) =
     (if cs = [] \<and> c3 = padChar then
        (if c2 = padChar then
           (case (dec c0, dec c1) of
              (Some s0, Some s1) \<Rightarrow>
                (let val = s0 * 262144 + s1 * 4096
                 in Some [word_of_nat (val div 65536)])
            | _ \<Rightarrow> None)
         else
           (case (dec c0, dec c1, dec c2) of
              (Some s0, Some s1, Some s2) \<Rightarrow>
                (let val = s0 * 262144 + s1 * 4096 + s2 * 64
                 in Some [word_of_nat (val div 65536), word_of_nat (val div 256)])
            | _ \<Rightarrow> None))
      else
        (case (dec c0, dec c1, dec c2, dec c3) of
           (Some s0, Some s1, Some s2, Some s3) \<Rightarrow>
             (let val = s0 * 262144 + s1 * 4096 + s2 * 64 + s3
              in map_option
                   (\<lambda>rest. word_of_nat (val div 65536) # word_of_nat (val div 256) #
                            word_of_nat val # rest)
                   (DecodeString cs))
         | _ \<Rightarrow> None))"
| "DecodeString (c0 # cs) = None"

subsection \<open>The request payload and its JSON encoding\<close>

text \<open>\<^verbatim>\<open>type payload struct { Digest string `json:"digest"` }\<close> (lines 30-33).\<close>

record payload =
  Digest :: string

text \<open>
  Go values as \<^verbatim>\<open>json.Marshal\<close> distinguishes them by kind, and the JSON documents it
  produces. A JSON string holds the characters of the Go string; how they are escaped
  on the wire is left to the rendering of the document.
\<close>

datatype go_value =
    GoString string
  | GoBool bool
  | GoInt int
  | GoStruct "(string \<times> go_value) list"
  | GoNil
  | GoPtr go_value
  | GoChan
  | GoFunc
  | GoComplex

datatype json =
    JString string
  | JBool bool
  | JNumber int
  | JObject "(string \<times> json) list"
  | JNull

text \<open>A \<^verbatim>\<open>*payload\<close> as a Go value: one field, named by its \<^verbatim>\<open>json\<close> tag.\<close>

definition payload_value :: "payload \<Rightarrow> go_value" where
  "payload_value p = GoPtr (GoStruct [(''digest'', GoString (Digest p))])"

text \<open>
  Modelled from the spec: \<^verbatim>\<open>json.Marshal\<close> belongs to Go's standard library and is not
  under src/; the spec fixes its result for the request as the JSON body
  \<^verbatim>\<open>{"digest": "<url-safe-base64>"}\<close>. Strings, booleans, integers, structs and
  pointers are encoded; channel, function and complex values are the kinds that
  \<^verbatim>\<open>Marshal\<close> refuses with an \<^verbatim>\<open>UnsupportedTypeError\<close>.
\<close>

fun Marshal :: "go_value \<Rightarrow> error + json"
  and MarshalFields :: "(string \<times> go_value) list \<Rightarrow> error + (string \<times> json) list" where
  "Marshal (GoString s) = Inr (JString s)"
| "Marshal (GoBool b) = Inr (JBool b)"
| "Marshal (GoInt i) = Inr (JNumber i)"
| "Marshal (GoStruct fs) =
     (case MarshalFields fs of Inl err \<Rightarrow> Inl err | Inr js \<Rightarrow> Inr (JObject js))"
| "Marshal GoNil = Inr JNull"
| "Marshal (GoPtr v) = Marshal v"
| "Marshal GoChan = Inl (Foreign ''json: unsupported type: chan'' False)"
| "Marshal GoFunc = Inl (Foreign ''json: unsupported type: func'' False)"
| "Marshal GoComplex = Inl (Foreign ''json: unsupported type: complex'' False)"
| "MarshalFields [] = Inr []"
| "MarshalFields ((k, v) # fs) =
     (case Marshal v of
        Inl err \<Rightarrow> Inl err
      | Inr j \<Rightarrow>
          (case MarshalFields fs of Inl err \<Rightarrow> Inl err | Inr js \<Rightarrow> Inr ((k, j) # js)))"

subsection \<open>The client\<close>

text \<open>
  \<^verbatim>\<open>http.Client\<close>, of which the package sets \<^verbatim>\<open>Timeout\<close> only. What the client answers
  to a request belongs to the environment (\<open>Do\<close> below).
\<close>

record http_Client =
  Timeout :: Duration

text \<open>
  \<^verbatim>\<open>type Client struct\<close> (lines 37-48). \<open>Notify\<close> is \<open>None\<close> for a nil callback and
  \<open>Some ()\<close> for an installed one, whose calls are recorded as effects.
\<close>

record Client =
  Endpoint :: string
  TotalTimeout :: Duration
  Notify :: "unit option"
  HttpClient :: http_Client

text \<open>\<^verbatim>\<open>NewClient\<close> (lines 51-58); \<^verbatim>\<open>Notify\<close> keeps its zero value.\<close>

definition NewClient :: "string \<Rightarrow> Client" where
  "NewClient endpoint =
     \<lparr>Endpoint = endpoint,
      TotalTimeout = 60 * Second,
      Notify = None,
      HttpClient = \<lparr>Timeout = 5 * Second\<rparr>\<rparr>"

subsection \<open>Requests, responses and the environment\<close>

record Request =
  ReqMethod :: string
  URL :: string
  Header :: "(string \<times> string) list"
  ReqBody :: json

text \<open>
  A response body (\<^verbatim>\<open>io.ReadCloser\<close>): \<open>pending\<close> are the bytes its first \<^verbatim>\<open>Read\<close> has at
  hand and \<open>read_err\<close> the error that \<^verbatim>\<open>Read\<close> reports. \<^verbatim>\<open>Read(p)\<close> fills at most
  \<^verbatim>\<open>len(p)\<close> bytes, as the contract of \<^verbatim>\<open>io.Reader\<close> says.
\<close>

record ReadCloser =
  pending :: "byte list"
  read_err :: "error option"

definition Read :: "ReadCloser \<Rightarrow> nat \<Rightarrow> byte list \<times> error option" where
  "Read body len = (take len (pending body), read_err body)"

text \<open>\<^verbatim>\<open>http.Response\<close>: \<open>ContentLength\<close> is \<open>-1\<close> when the length is unknown.\<close>

record Response =
  StatusCode :: int
  ContentLength :: int
  Body :: ReadCloser

text \<open>
  \<^verbatim>\<open>backoff.NewExponentialBackOff()\<close>, of which \<^verbatim>\<open>Sign\<close> sets \<^verbatim>\<open>MaxElapsedTime\<close>; its
  other fields keep the library's defaults and are not read here. \<^verbatim>\<open>backoff.Stop\<close> is
  the duration \<open>-1\<close>.
\<close>

record ExponentialBackOff =
  MaxElapsedTime :: Duration

definition NewExponentialBackOff :: ExponentialBackOff where
  "NewExponentialBackOff = \<lparr>MaxElapsedTime = 15 * 60 * Second\<rparr>"

definition Stop :: Duration where
  "Stop = - 1"

text \<open>
  What the world answers during one attempt: the error of \<^verbatim>\<open>http.NewRequest\<close> for a
  method and URL (if any), the result of \<^verbatim>\<open>c.HttpClient.Do\<close> for the request, and what
  the controller's \<^verbatim>\<open>NextBackOff()\<close> returns when it is asked after the attempt:
  \<open>Stop\<close> once it finds the budget \<open>MaxElapsedTime\<close> used up, the next interval
  otherwise.
\<close>

record attempt =
  NewRequest :: "string \<Rightarrow> string \<Rightarrow> error option"
  Do :: "Request \<Rightarrow> error + Response"
  NextBackOff :: "ExponentialBackOff \<Rightarrow> Duration"

text \<open>The effects of a run, in order.\<close>

datatype event =
    Sent Request
  | BodyRead nat
  | BodyClosed
  | Notified error Duration
  | Slept Duration

type_synonym 'sts result = "'sts option \<times> error option"

subsection \<open>One attempt: \<^verbatim>\<open>sign\<close> (lines 102-161)\<close>

text \<open>
  \<open>Unmarshal\<close> stands for \<^verbatim>\<open>json.Unmarshal\<close> into a \<^verbatim>\<open>tssig.SignedTimeStamp\<close>, a type of
  another repository: a parameter, as is the type \<open>'sts\<close> of its results. The
  deferred \<^verbatim>\<open>response.Body.Close()\<close> runs on every return after \<^verbatim>\<open>Do\<close> succeeded.
\<close>

definition sign ::
  "Client \<Rightarrow> (byte list \<Rightarrow> error + 'sts) \<Rightarrow> attempt \<Rightarrow> byte list \<Rightarrow> 'sts result \<times> event list" where
  "sign c Unmarshal a digest =
     (let requestPayload = \<lparr>Digest = EncodeToString digest\<rparr> in
      case Marshal (payload_value requestPayload) of
        Inl err \<Rightarrow> ((None, Some err), [])
      | Inr jsonPayload \<Rightarrow>
      (case NewRequest a ''POST'' (Endpoint c) of
        Some err \<Rightarrow> ((None, Some err), [])
      | None \<Rightarrow>
      (let req = \<lparr>ReqMethod = ''POST'', URL = Endpoint c,
                  Header = [(''Content-Type'', ''application/json''),
                            (''User-Agent'', ''tssig-client-go'')],
                  ReqBody = jsonPayload\<rparr> in
       case Do a req of
        Inl err \<Rightarrow> ((None, Some err), [Sent req])
      | Inr response \<Rightarrow>
      if StatusCode response = 429 \<or> StatusCode response \<ge> 500 then
        ((None, Some (Retryable (''returned non-200 status code '' @
            Itoa (StatusCode response) @ ''. we can retry''))),
         [Sent req, BodyClosed])
      else if StatusCode response \<noteq> 200 then
        ((None, Some (Errorf (''returned non-200 status code '' @ Itoa (StatusCode response)))),
         [Sent req, BodyClosed])
      else if ContentLength response > MaxHttpDownloadSize then
        ((None, Some (Errorf (''the maximum allowed response size is '' @
            Itoa MaxHttpDownloadSize @ '' bytes. the returned response is '' @
            Itoa (ContentLength response) @ '' bytes''))),
         [Sent req, BodyClosed])
      else
      (case Read (Body response) (nat (MaxHttpDownloadSize + 1)) of
        (result, err) \<Rightarrow>
      (let n = length result in
       case err of
        Some e \<Rightarrow> ((None, Some e), [Sent req, BodyRead n, BodyClosed])
      | None \<Rightarrow>
      if int n > MaxHttpDownloadSize then
        ((None, Some (Errorf (''the maximum allowed response size is '' @
            Itoa MaxHttpDownloadSize @ '' bytes. the returned response is bigger''))),
         [Sent req, BodyRead n, BodyClosed])
      else
      (case Unmarshal result of
        Inl e \<Rightarrow> ((None, Some e), [Sent req, BodyRead n, BodyClosed])
      | Inr sts \<Rightarrow> ((Some sts, None), [Sent req, BodyRead n, BodyClosed])))))))"

subsection \<open>The retry loop and \<^verbatim>\<open>Sign\<close> (lines 63-99)\<close>

text \<open>
  The closure that \<^verbatim>\<open>Sign\<close> hands to the retry loop (lines 85-95): a \<^verbatim>\<open>Retryable\<close> or a
  timeout is returned as it is, anything else through \<^verbatim>\<open>backoff.Permanent\<close>.
\<close>

definition Sign_operation ::
  "Client \<Rightarrow> (byte list \<Rightarrow> error + 'sts) \<Rightarrow> byte list \<Rightarrow> attempt \<Rightarrow> 'sts result \<times> event list" where
  "Sign_operation c Unmarshal digest a =
     (case sign c Unmarshal a digest of
        ((sts, err), evs) \<Rightarrow>
          (case err of
             Some e \<Rightarrow>
               if errors_As_Retryable e \<or> IsTimeout e then ((sts, err), evs)
               else ((sts, Permanent err), evs)
           | None \<Rightarrow> ((sts, Permanent err), evs)))"

text \<open>The call of the \<^verbatim>\<open>notify\<close> callback, when one is installed.\<close>

definition notification :: "unit option \<Rightarrow> error \<Rightarrow> Duration \<Rightarrow> event list" where
  "notification notify err next = (case notify of None \<Rightarrow> [] | Some u \<Rightarrow> [Notified err next])"

text \<open>
  Modelled from the spec: \<^verbatim>\<open>backoff.RetryNotifyWithData\<close> (module
  \<^verbatim>\<open>github.com/cenkalti/backoff/v4\<close>) is not under src/. Section 4.1, steps 2, 5 and 6:
  the loop ends when an attempt succeeds, when an attempt fails with a permanent
  error (the error inside the \<^verbatim>\<open>PermanentError\<close> is returned at once), or when the
  controller stops (the last error is returned as it is); otherwise the observer is
  called with the error and the wait, the loop sleeps and tries again. The list holds
  the environment of the attempts, in order; the result is \<open>None\<close> when the run needs
  more attempts than the list describes.
\<close>

fun RetryNotifyWithData ::
  "(attempt \<Rightarrow> 'r result \<times> event list) \<Rightarrow> ExponentialBackOff \<Rightarrow> unit option \<Rightarrow>
     attempt list \<Rightarrow> ('r result \<times> event list) option" where
  "RetryNotifyWithData operation b notify [] = None"
| "RetryNotifyWithData operation b notify (a # rest) =
     (case operation a of
        ((res, err), evs) \<Rightarrow>
          (case err of
             None \<Rightarrow> Some ((res, None), evs)
           | Some e \<Rightarrow>
               (case errors_As_Permanent e of
                  Some inner \<Rightarrow> Some ((res, Some inner), evs)
                | None \<Rightarrow>
                    (let next = NextBackOff a b in
                     if next = Stop then Some ((res, Some e), evs)
                     else map_option
                            (\<lambda>(r, evs'). (r, evs @ notification notify e next @ [Slept next] @ evs'))
                            (RetryNotifyWithData operation b notify rest)))))"

text \<open>
  \<^verbatim>\<open>Sign\<close>: the length check (lines 65-75), then the retry loop over the environment
  of the attempts.
\<close>

definition Sign ::
  "Client \<Rightarrow> (byte list \<Rightarrow> error + 'sts) \<Rightarrow> attempt list \<Rightarrow> byte list \<Rightarrow>
     ('sts result \<times> event list) option" where
  "Sign c Unmarshal env digest =
     (let len = int (length digest) in
      if len = 224 div 8 \<or> len = 256 div 8 \<or> len = 384 div 8 \<or> len = 512 div 8 then
        (let exponentialBackOff = NewExponentialBackOff\<lparr>MaxElapsedTime := TotalTimeout c\<rparr>
         in RetryNotifyWithData (Sign_operation c Unmarshal digest) exponentialBackOff (Notify c) env)
      else
        Some ((None, Some (Errorf (''digest must be exactly 224, 256, 384, or 512 bits. '' @
                Itoa (int (length digest) * 8) @ '' bits found''))), []))"

subsection \<open>Vocabulary for the statements\<close>

text \<open>
  The request that \<^verbatim>\<open>sign\<close> builds (lines 103-118): a POST to the endpoint with the two
  headers and the JSON document \<^verbatim>\<open>{"digest": ...}\<close> as body.
\<close>

definition sign_request :: "Client \<Rightarrow> byte list \<Rightarrow> Request" where
  "sign_request c digest =
     \<lparr>ReqMethod = ''POST'', URL = Endpoint c,
      Header = [(''Content-Type'', ''application/json''), (''User-Agent'', ''tssig-client-go'')],
      ReqBody = JObject [(''digest'', JString (EncodeToString digest))]\<rparr>"

text \<open>The controller that \<^verbatim>\<open>Sign\<close> configures for a client (lines 79-80).\<close>

definition Sign_backoff :: "Client \<Rightarrow> ExponentialBackOff" where
  "Sign_backoff c = NewExponentialBackOff\<lparr>MaxElapsedTime := TotalTimeout c\<rparr>"

text \<open>The number of requests sent and of body bytes buffered in a list of effects.\<close>

fun requests :: "event list \<Rightarrow> nat" where
  "requests [] = 0"
| "requests (Sent req # evs) = Suc (requests evs)"
| "requests (ev # evs) = requests evs"

fun buffered :: "event list \<Rightarrow> nat" where
  "buffered [] = 0"
| "buffered (BodyRead n # evs) = n + buffered evs"
| "buffered (ev # evs) = buffered evs"

text \<open>
  The three outcomes of an attempt, as the retry loop reads the closure's result: no
  error is a success, a \<^verbatim>\<open>PermanentError\<close> a permanent failure, any other error a
  retryable one.
\<close>

datatype 'sts outcome =
    Success "'sts option"
  | RetryableFailure error
  | PermanentFailure error

fun outcome_of :: "'sts result \<Rightarrow> 'sts outcome" where
  "outcome_of (sts, None) = Success sts"
| "outcome_of (sts, Some e) =
     (case errors_As_Permanent e of
        Some inner \<Rightarrow> PermanentFailure inner
      | None \<Rightarrow> RetryableFailure e)"

text \<open>An attempt result that the retry loop reads as a retryable failure.\<close>

definition retryable_failure :: "'sts result \<Rightarrow> bool" where
  "retryable_failure r = (case outcome_of r of RetryableFailure e \<Rightarrow> True | _ \<Rightarrow> False)"

text \<open>
  Environments for concrete runs: an attempt that is answered with a response, and
  one whose transport call fails. In both the controller answers \<open>next\<close>.
\<close>

definition responding :: "int \<Rightarrow> int \<Rightarrow> byte list \<Rightarrow> error option \<Rightarrow> Duration \<Rightarrow> attempt" where
  "responding status clen bytes rerr next =
     \<lparr>NewRequest = (\<lambda>m u. None),
      Do = (\<lambda>req. Inr \<lparr>StatusCode = status, ContentLength = clen,
                         Body = \<lparr>pending = bytes, read_err = rerr\<rparr>\<rparr>),
      NextBackOff = (\<lambda>b. next)\<rparr>"

definition failing :: "error \<Rightarrow> Duration \<Rightarrow> attempt" where
  "failing err next =
     \<lparr>NewRequest = (\<lambda>m u. None), Do = (\<lambda>req. Inl err), NextBackOff = (\<lambda>b. next)\<rparr>"

definition example_digest :: "byte list" where
  "example_digest = replicate 32 0"

definition example_client :: Client where
  "example_client = NewClient ''https://tssig.example/sign''"

section \<open>Auxiliary facts\<close>

subsection \<open>Base64: decoding undoes encoding\<close>

lemma sextets_recompose:
  fixes val :: nat
  assumes "val < 16777216"
  shows "val div 262144 mod 64 * 262144 + val div 4096 mod 64 * 4096 + val div 64 mod 64 * 64 + val mod 64 = val"
proof -
  have 1: "val mod 4096 = 64 * (val div 64 mod 64) + val mod 64"
    using mod_mult2_eq [of val 64 64] by simp
  have 2: "val mod 262144 = 4096 * (val div 4096 mod 64) + val mod 4096"
    using mod_mult2_eq [of val 4096 64] by simp
  have 3: "val mod 16777216 = 262144 * (val div 262144 mod 64) + val mod 262144"
    using mod_mult2_eq [of val 262144 64] by simp
  have 4: "val mod 16777216 = val"
    using assms by simp
  show ?thesis using 1 2 3 4 by linarith
qed

lemma unat_byte_less: "unat (b :: byte) < 256"
proof -
  have "unat b < 2 ^ LENGTH(8)" by (rule unsigned_less)
  then show ?thesis by simp
qed

lemma byte_of_nat_eq: "n mod 256 = unat (b :: byte) \<Longrightarrow> word_of_nat n = b"
  by (simp add: word_unat_eq_iff unat_of_nat)

lemma bytes_of_val:
  fixes b0 b1 b2 :: byte
  defines "val \<equiv> unat b0 * 65536 + unat b1 * 256 + unat b2"
  shows "word_of_nat (val div 65536) = b0" "word_of_nat (val div 256) = b1" "word_of_nat val = b2"
proof -
  note l = unat_byte_less [of b0] unat_byte_less [of b1] unat_byte_less [of b2]
  have "val div 65536 = unat b0"
    unfolding val_def using l by simp
  then show "word_of_nat (val div 65536) = b0" by simp
  have "val div 256 = unat b0 * 256 + unat b1"
    unfolding val_def using l by simp
  then show "word_of_nat (val div 256) = b1"
    using l by (intro byte_of_nat_eq) simp
  have "val = (unat b0 * 256 + unat b1) * 256 + unat b2"
    unfolding val_def by simp
  then have "val mod 256 = unat b2 mod 256"
    by (simp only: mod_mult_self3)
  then have "val mod 256 = unat b2"
    using l by simp
  then show "word_of_nat val = b2"
    by (rule byte_of_nat_eq)
qed

lemma encodeURL_length: "length encodeURL = 64"
  by (simp add: encodeURL_def)

lemma encodeURL_distinct: "distinct encodeURL"
  by (simp add: encodeURL_def)

lemma dec_enc: "i < 64 \<Longrightarrow> dec (enc i) = Some i"
  unfolding dec_def enc_def
  using map_of_zip_nth [of encodeURL "[0..<64]" i] encodeURL_length encodeURL_distinct
  by simp

lemma enc_not_pad: "i < 64 \<Longrightarrow> enc i \<noteq> padChar"
proof -
  assume "i < 64"
  then have "enc i \<in> set encodeURL"
    by (simp add: enc_def encodeURL_length)
  moreover have "padChar \<notin> set encodeURL"
    by (simp add: encodeURL_def padChar_def)
  ultimately show ?thesis by auto
qed

lemma val_bound:
  fixes b0 b1 b2 :: byte
  shows "unat b0 * 65536 + unat b1 * 256 + unat b2 < 16777216"
  using unat_byte_less [of b0] unat_byte_less [of b1] unat_byte_less [of b2] by simp

lemma decode_full:
  fixes b0 b1 b2 :: byte
  assumes "val = unat b0 * 65536 + unat b1 * 256 + unat b2"
  shows "DecodeString (enc (val div 262144 mod 64) # enc (val div 4096 mod 64) #
         enc (val div 64 mod 64) # enc (val mod 64) # cs) = map_option (\<lambda>rest. b0 # b1 # b2 # rest) (DecodeString cs)"
proof -
  have v: "val < 16777216" using assms val_bound by simp
  have r: "val div 262144 mod 64 * 262144 + val div 4096 mod 64 * 4096 + val div 64 mod 64 * 64 + val mod 64 = val"
    using sextets_recompose [OF v] .
  have np: "enc (val mod 64) \<noteq> padChar" by (simp add: enc_not_pad)
  have bs: "word_of_nat (val div 65536) = b0" "word_of_nat (val div 256) = b1" "word_of_nat val = b2"
    unfolding assms by (rule bytes_of_val)+
  show ?thesis
    using np by (simp add: dec_enc r bs)
qed

lemma decode_two:
  fixes b0 b1 :: byte
  assumes "val = unat b0 * 65536 + unat b1 * 256"
  shows "DecodeString [enc (val div 262144 mod 64), enc (val div 4096 mod 64),
          enc (val div 64 mod 64), padChar] = Some [b0, b1]"
proof -
  have v: "val = unat b0 * 65536 + unat b1 * 256 + unat (0 :: byte)" using assms by simp
  have lt: "val < 16777216" unfolding v by (rule val_bound)
  have "val = (unat b0 * 1024 + unat b1 * 4) * 64"
    unfolding assms by simp
  then have m: "val mod 64 = 0" by simp
  have r: "val div 262144 mod 64 * 262144 + val div 4096 mod 64 * 4096 + val div 64 mod 64 * 64 = val"
    using sextets_recompose [OF lt] m by linarith
  have np: "enc (val div 64 mod 64) \<noteq> padChar" by (simp add: enc_not_pad)
  have bs: "word_of_nat (val div 65536) = b0" "word_of_nat (val div 256) = b1"
    unfolding v by (rule bytes_of_val)+
  show ?thesis
    using np by (simp add: dec_enc r bs)
qed

lemma decode_one:
  fixes b0 :: byte
  assumes "val = unat b0 * 65536"
  shows "DecodeString [enc (val div 262144 mod 64), enc (val div 4096 mod 64), padChar, padChar] = Some [b0]"
proof -
  have v: "val = unat b0 * 65536 + unat (0 :: byte) * 256 + unat (0 :: byte)" using assms by simp
  have lt: "val < 16777216" unfolding v by (rule val_bound)
  have e: "val = (unat b0 * 16 * 64) * 64"
    unfolding assms by simp
  then have m0: "val mod 64 = 0" by simp
  have "val div 64 = unat b0 * 16 * 64" unfolding e by simp
  then have m1: "val div 64 mod 64 = 0" by simp
  have r: "val div 262144 mod 64 * 262144 + val div 4096 mod 64 * 4096 = val"
    using sextets_recompose [OF lt] m0 m1 by linarith
  have bs: "word_of_nat (val div 65536) = b0"
    unfolding v by (rule bytes_of_val)
  show ?thesis
    by (simp add: dec_enc r bs)
qed

lemma DecodeString_EncodeToString: "DecodeString (EncodeToString src) = Some src"
proof (induction src rule: EncodeToString.induct)
  case (1 b0 b1 b2 src)
  show ?case
    unfolding EncodeToString.simps Let_def
    by (simp only: decode_full [OF refl] "1.IH" option.map)
next
  case (2 b0 b1)
  show ?case
    unfolding EncodeToString.simps Let_def by (rule decode_two [OF refl])
next
  case (3 b0)
  show ?case
    unfolding EncodeToString.simps Let_def by (rule decode_one [OF refl])
next
  case 4
  show ?case by simp
qed

subsection \<open>The paths of one attempt and of the retry loop\<close>

lemma Marshal_payload:
  "Marshal (payload_value \<lparr>Digest = s\<rparr>) = Inr (JObject [(''digest'', JString s)])"
  by (simp add: payload_value_def)

lemma Itoa_768: "Itoa 768 = ''768''"
  by (simp add: Itoa_def nat_digits.simps)

lemma sign_eq:
  "sign c Unmarshal a digest =
     (case NewRequest a ''POST'' (Endpoint c) of
        Some err \<Rightarrow> ((None, Some err), [])
      | None \<Rightarrow>
      (case Do a (sign_request c digest) of
        Inl err \<Rightarrow> ((None, Some err), [Sent (sign_request c digest)])
      | Inr response \<Rightarrow>
      if StatusCode response = 429 \<or> StatusCode response \<ge> 500 then
        ((None, Some (Retryable (''returned non-200 status code '' @
            Itoa (StatusCode response) @ ''. we can retry''))),
         [Sent (sign_request c digest), BodyClosed])
      else if StatusCode response \<noteq> 200 then
        ((None, Some (Errorf (''returned non-200 status code '' @ Itoa (StatusCode response)))),
         [Sent (sign_request c digest), BodyClosed])
      else if ContentLength response > 768 then
        ((None, Some (Errorf (''the maximum allowed response size is 768 bytes. the returned response is '' @
            Itoa (ContentLength response) @ '' bytes''))),
         [Sent (sign_request c digest), BodyClosed])
      else
      (let result = take 769 (pending (Body response)); n = length result in
       case read_err (Body response) of
        Some e \<Rightarrow> ((None, Some e), [Sent (sign_request c digest), BodyRead n, BodyClosed])
      | None \<Rightarrow>
      if n > 768 then
        ((None, Some (Errorf ''the maximum allowed response size is 768 bytes. the returned response is bigger'')),
         [Sent (sign_request c digest), BodyRead n, BodyClosed])
      else
      (case Unmarshal result of
        Inl e \<Rightarrow> ((None, Some e), [Sent (sign_request c digest), BodyRead n, BodyClosed])
      | Inr sts \<Rightarrow> ((Some sts, None), [Sent (sign_request c digest), BodyRead n, BodyClosed])))))"
  by (simp add: sign_def Marshal_payload sign_request_def Read_def MaxHttpDownloadSize_def
      Itoa_768 Let_def split: option.splits sum.splits)


lemma sign_result_shape:
  "(\<exists>e. fst (sign c Unmarshal a digest) = (None, Some e)) \<or>
   (\<exists>sts. fst (sign c Unmarshal a digest) = (Some sts, None))"
  by (simp add: sign_eq Let_def split: option.splits sum.splits)

lemma Sign_operation_eq:
  "Sign_operation c Unmarshal digest a =
     (case sign c Unmarshal a digest of
        ((sts, None), evs) \<Rightarrow> ((sts, None), evs)
      | ((sts, Some e), evs) \<Rightarrow>
          if errors_As_Retryable e \<or> IsTimeout e then ((sts, Some e), evs)
          else ((sts, Some (PermanentError e)), evs))"
  by (simp add: Sign_operation_def split: prod.splits option.splits)

lemma IsTimeout_not_Permanent: "IsTimeout e \<Longrightarrow> errors_As_Permanent e = None"
  by (cases e) simp_all

lemma Sign_operation_retryable:
  assumes "outcome_of (fst (Sign_operation c Unmarshal digest a)) = RetryableFailure e"
  shows "fst (Sign_operation c Unmarshal digest a) = (None, Some e)"
    and "fst (sign c Unmarshal a digest) = (None, Some e)"
    and "errors_As_Permanent e = None"
proof -
  obtain r err evs where s: "sign c Unmarshal a digest = ((r, err), evs)"
    by (metis surj_pair)
  then have shape: "(r = None \<and> err \<noteq> None) \<or> (r \<noteq> None \<and> err = None)"
    using sign_result_shape [of c Unmarshal a digest] by auto
  from assms s shape
  have "r = None \<and> err = Some e \<and> errors_As_Permanent e = None"
    by (auto simp add: Sign_operation_eq split: option.splits if_splits)
  then show "fst (sign c Unmarshal a digest) = (None, Some e)"
    and "errors_As_Permanent e = None"
    using s by simp_all
  then show "fst (Sign_operation c Unmarshal digest a) = (None, Some e)"
    using assms s by (auto simp add: Sign_operation_eq split: option.splits if_splits)
qed

lemma Retry_continue:
  assumes "fst (operation a) = (res, Some e)" "errors_As_Permanent e = None"
    and "NextBackOff a b \<noteq> Stop"
  shows "RetryNotifyWithData operation b notify (a # rest) =
     map_option
       (\<lambda>(r, evs'). (r, snd (operation a) @ notification notify e (NextBackOff a b) @
                          [Slept (NextBackOff a b)] @ evs'))
       (RetryNotifyWithData operation b notify rest)"
  using assms by (cases "operation a") (simp add: Let_def)

lemma Retry_stop:
  assumes "fst (operation a) = (res, Some e)" "errors_As_Permanent e = None"
    and "NextBackOff a b = Stop"
  shows "RetryNotifyWithData operation b notify (a # rest) = Some ((res, Some e), snd (operation a))"
  using assms by (cases "operation a") (simp add: Let_def)

lemma Retry_permanent:
  assumes "fst (operation a) = (res, Some (PermanentError e))"
  shows "RetryNotifyWithData operation b notify (a # rest) = Some ((res, Some e), snd (operation a))"
  using assms by (cases "operation a") simp

lemma Retry_success:
  assumes "fst (operation a) = (res, None)"
  shows "RetryNotifyWithData operation b notify (a # rest) = Some ((res, None), snd (operation a))"
  using assms by (cases "operation a") simp

lemma Sign_valid_length:
  "length digest \<in> {28, 32, 48, 64} \<Longrightarrow>
   Sign c Unmarshal env digest =
     RetryNotifyWithData (Sign_operation c Unmarshal digest) (Sign_backoff c) (Notify c) env"
  by (auto simp add: Sign_def Sign_backoff_def Let_def)

lemma outcome_of_RetryableFailure:
  "outcome_of (r, err) = RetryableFailure e \<longleftrightarrow> err = Some e \<and> errors_As_Permanent e = None"
  by (cases err) (auto split: option.splits)

lemma retryable_failure_iff:
  "retryable_failure (r, err) \<longleftrightarrow> (\<exists>e. err = Some e \<and> errors_As_Permanent e = None)"
  by (cases err) (auto simp add: retryable_failure_def split: option.splits)

lemma Retry_exhausted:
  assumes "\<forall>a \<in> set attempts. retryable_failure (fst (operation a)) \<and> NextBackOff a b \<noteq> Stop"
    and "fst (operation final) = (res, Some e)" "errors_As_Permanent e = None"
    and "NextBackOff final b = Stop"
  shows "\<exists>evs. RetryNotifyWithData operation b notify (attempts @ final # rest) =
           Some ((res, Some e), evs)"
  using assms(1)
proof (induction attempts)
  case Nil
  show ?case
    using Retry_stop [of operation final res e b notify rest] assms(2,3,4) by simp
next
  case (Cons a attempts)
  then obtain evs where
    ih: "RetryNotifyWithData operation b notify (attempts @ final # rest) = Some ((res, Some e), evs)"
    by auto
  from Cons.prems have rf: "retryable_failure (fst (operation a))" and nb: "NextBackOff a b \<noteq> Stop"
    by simp_all
  obtain r0 e0 where o: "fst (operation a) = (r0, Some e0)" and np: "errors_As_Permanent e0 = None"
    using rf by (cases "fst (operation a)") (auto simp add: retryable_failure_iff)
  show ?case
    using Retry_continue [of operation a r0 e0 b notify "attempts @ final # rest"] o np nb ih
    by simp
qed

lemma Sign_invalid_length:
  "length digest \<notin> {28, 32, 48, 64} \<Longrightarrow>
   Sign c Unmarshal env digest =
     Some ((None, Some (Errorf (''digest must be exactly 224, 256, 384, or 512 bits. '' @
                Itoa (int (length digest) * 8) @ '' bits found''))), [])"
  by (simp add: Sign_def Let_def)

lemma length_example_digest: "length example_digest = 32"
  by (simp add: example_digest_def)

lemma Sign_continue:
  assumes "length digest \<in> {28, 32, 48, 64}"
    and "fst (Sign_operation c Unmarshal digest a) = (res, Some e)"
    and "errors_As_Permanent e = None"
    and "NextBackOff a (Sign_backoff c) \<noteq> Stop"
  shows "Sign c Unmarshal (a # rest) digest =
     map_option
       (\<lambda>(r, evs'). (r, snd (Sign_operation c Unmarshal digest a) @
                          notification (Notify c) e (NextBackOff a (Sign_backoff c)) @
                          [Slept (NextBackOff a (Sign_backoff c))] @ evs'))
       (Sign c Unmarshal rest digest)"
  using Retry_continue [of "Sign_operation c Unmarshal digest" a res e "Sign_backoff c" "Notify c" rest]
    assms
  by (simp add: Sign_valid_length)

lemma Sign_permanent:
  assumes "length digest \<in> {28, 32, 48, 64}"
    and "fst (Sign_operation c Unmarshal digest a) = (res, Some (PermanentError e))"
  shows "Sign c Unmarshal (a # rest) digest =
     Some ((res, Some e), snd (Sign_operation c Unmarshal digest a))"
  using Retry_permanent [of "Sign_operation c Unmarshal digest" a res e "Sign_backoff c" "Notify c" rest]
    assms
  by (simp add: Sign_valid_length)

lemma Sign_success:
  assumes "length digest \<in> {28, 32, 48, 64}"
    and "fst (Sign_operation c Unmarshal digest a) = (res, None)"
  shows "Sign c Unmarshal (a # rest) digest =
     Some ((res, None), snd (Sign_operation c Unmarshal digest a))"
  using Retry_success [of "Sign_operation c Unmarshal digest" a res "Sign_backoff c" "Notify c" rest]
    assms
  by (simp add: Sign_valid_length)


lemma buffered_sign: "buffered (snd (sign c Unmarshal a digest)) \<le> 769"
  by (simp add: sign_eq Let_def split: option.splits sum.splits)

lemma EncodeToString_inj: "EncodeToString d = EncodeToString d' \<Longrightarrow> d = d'"
  by (metis DecodeString_EncodeToString option.inject)

lemma length_EncodeToString: "length (EncodeToString src) = 4 * ((length src + 2) div 3)"
proof (induction src rule: EncodeToString.induct)
  case (1 b0 b1 b2 src)
  have "(length (b0 # b1 # b2 # src) + 2) div 3 = Suc ((length src + 2) div 3)"
    by simp
  then show ?case using 1 by (simp add: Let_def)
qed (simp_all add: Let_def)


lemma example_digest_list:
  "example_digest = [0, 0, 0, 0, 0, 0, 0, 0, 0, 0, 0, 0, 0, 0, 0, 0,
                     0, 0, 0, 0, 0, 0, 0, 0, 0, 0, 0, 0, 0, 0, 0, 0]"
  by (simp add: example_digest_def eval_nat_numeral)

lemma EncodeToString_example:
  "EncodeToString example_digest = ''AAAAAAAAAAAAAAAAAAAAAAAAAAAAAAAAAAAAAAAAAAA=''"
  by (simp add: example_digest_list enc_def encodeURL_def padChar_def)

lemma sign_sends_request:
  "NewRequest a ''POST'' (Endpoint c) = None \<Longrightarrow>
   \<exists>evs. snd (sign c Unmarshal a digest) = Sent (sign_request c digest) # evs"
  by (simp add: sign_eq Let_def split: option.splits sum.splits)


text \<open>A run whose first attempt succeeds, for the concrete runs below.\<close>

lemma Sign_example_success:
  "Sign example_client (\<lambda>bs. Inr bs) (responding 200 2 [1, 2] None next # rest) example_digest =
     Some ((Some [1, 2], None),
           [Sent (sign_request example_client example_digest), BodyRead 2, BodyClosed])"
  using Sign_success [of example_digest example_client "\<lambda>bs. Inr bs" "responding 200 2 [1, 2] None next" "Some [1, 2]" rest]
  by (simp add: length_example_digest Sign_operation_eq sign_eq responding_def)

section \<open>The claims\<close>

text \<open>
  C8. A client built by \<^verbatim>\<open>NewClient\<close> has a total retry timeout of exactly 60 seconds,
  which is the budget \<^verbatim>\<open>Sign\<close> gives the backoff controller; its HTTP client has a
  per-request timeout of exactly 5 seconds, whatever the total timeout is set to; and
  the response size ceiling is exactly 768 bytes.
\<close>

theorem NewClient_defaults:
  "TotalTimeout (NewClient endpoint) = 60 * Second \<and>
   Timeout (HttpClient (NewClient endpoint)) = 5 * Second \<and>
   Timeout (HttpClient ((NewClient endpoint)\<lparr>TotalTimeout := t\<rparr>)) = 5 * Second \<and>
   MaxElapsedTime (Sign_backoff (NewClient endpoint)) = 60 * Second \<and>
   Second = 1000000000 \<and>
   MaxHttpDownloadSize = 768 \<and>
   Endpoint (NewClient endpoint) = endpoint \<and>
   Notify (NewClient endpoint) = None"
  by (simp add: NewClient_def Second_def MaxHttpDownloadSize_def Sign_backoff_def)

text \<open>
  C3. A digest whose length is not 28, 32, 48 or 64 bytes makes \<^verbatim>\<open>Sign\<close> fail at once with
  the validation error, which is neither a \<^verbatim>\<open>Retryable\<close> nor a timeout; no effect
  happens (no request is sent), and the result does not depend on the environment,
  not even on whether it describes any attempt: the retry loop is not entered. A
  digest of one of the four lengths passes the check, and \<^verbatim>\<open>Sign\<close> is the retry loop.
\<close>

theorem Sign_digest_length_check:
  "(length digest \<notin> {28, 32, 48, 64} \<longrightarrow>
      (\<exists>msg evs. Sign c Unmarshal env digest = Some ((None, Some (Errorf msg)), evs) \<and>
             msg = ''digest must be exactly 224, 256, 384, or 512 bits. '' @
                     Itoa (int (length digest) * 8) @ '' bits found'' \<and>
             \<not> errors_As_Retryable (Errorf msg) \<and> \<not> IsTimeout (Errorf msg) \<and>
             evs = [] \<and> requests evs = 0 \<and>
             Sign c Unmarshal [] digest = Sign c Unmarshal env digest)) \<and>
   (length digest \<in> {28, 32, 48, 64} \<longrightarrow>
      Sign c Unmarshal env digest =
        RetryNotifyWithData (Sign_operation c Unmarshal digest) (Sign_backoff c) (Notify c) env)"
  using Sign_invalid_length [of digest c Unmarshal] Sign_valid_length [of digest c Unmarshal env]
  by simp

theorem Sign_digest_length_check_witness:
  "Sign example_client (\<lambda>bs. Inr bs) [responding 200 2 [1, 2] None Stop] [1, 2, 3] =
     Some ((None, Some (Errorf ''digest must be exactly 224, 256, 384, or 512 bits. 24 bits found'')), []) \<and>
   Sign example_client (\<lambda>bs. Inr bs) [] example_digest =
     RetryNotifyWithData (Sign_operation example_client (\<lambda>bs. Inr bs) example_digest)
       (Sign_backoff example_client) (Notify example_client) []"
  using Sign_digest_length_check [of "[1, 2, 3]" example_client "\<lambda>bs. Inr bs" "[responding 200 2 [1, 2] None Stop]"]
    Sign_digest_length_check [of example_digest example_client "\<lambda>bs. Inr bs" "[]"]
  by (simp add: length_example_digest Itoa_def nat_digits.simps)

text \<open>
  C4. When the response has status 200 and declares a content length above
  \<^verbatim>\<open>MaxHttpDownloadSize\<close> (768), \<^verbatim>\<open>sign\<close> fails with the size error after sending the
  request and before any read of the body: the body is only closed and no byte of it
  is buffered. The closure of \<^verbatim>\<open>Sign\<close> hands the error on through
  \<^verbatim>\<open>backoff.Permanent\<close>: the attempt is a permanent failure.
\<close>

theorem declared_length_over_ceiling:
  assumes req: "NewRequest a ''POST'' (Endpoint c) = None"
    and resp: "Do a (sign_request c digest) = Inr response"
    and st: "StatusCode response = 200"
    and cl: "ContentLength response > MaxHttpDownloadSize"
  shows "\<exists>err evs.
           err = Errorf (''the maximum allowed response size is 768 bytes. the returned response is '' @
                    Itoa (ContentLength response) @ '' bytes'') \<and>
           evs = [Sent (sign_request c digest), BodyClosed] \<and>
           sign c Unmarshal a digest = ((None, Some err), evs) \<and>
           buffered evs = 0 \<and>
           Sign_operation c Unmarshal digest a = ((None, Some (PermanentError err)), evs) \<and>
           outcome_of (fst (Sign_operation c Unmarshal digest a)) = PermanentFailure err"
proof -
  let ?err = "Errorf (''the maximum allowed response size is 768 bytes. the returned response is '' @
                    Itoa (ContentLength response) @ '' bytes'')"
  have s: "sign c Unmarshal a digest = ((None, Some ?err), [Sent (sign_request c digest), BodyClosed])"
    using req resp st cl by (simp add: sign_eq MaxHttpDownloadSize_def)
  then have "Sign_operation c Unmarshal digest a =
      ((None, Some (PermanentError ?err)), [Sent (sign_request c digest), BodyClosed])"
    by (simp add: Sign_operation_eq)
  then show ?thesis using s by simp
qed

theorem declared_length_over_ceiling_witness:
  "sign example_client (\<lambda>bs. Inr bs) (responding 200 800 [1, 2] None Second) example_digest =
     ((None, Some (Errorf ''the maximum allowed response size is 768 bytes. the returned response is 800 bytes'')),
      [Sent (sign_request example_client example_digest), BodyClosed]) \<and>
   outcome_of (fst (Sign_operation example_client (\<lambda>bs. Inr bs) example_digest
      (responding 200 800 [1, 2] None Second))) =
     PermanentFailure (Errorf ''the maximum allowed response size is 768 bytes. the returned response is 800 bytes'')"
  using declared_length_over_ceiling [of "responding 200 800 [1, 2] None Second"
      example_client example_digest
      "\<lparr>StatusCode = 200, ContentLength = 800, Body = \<lparr>pending = [1, 2], read_err = None\<rparr>\<rparr>"
      "\<lambda>bs. Inr bs"]
  by (simp add: responding_def MaxHttpDownloadSize_def Itoa_def nat_digits.simps)

text \<open>
  C6. When the transport call of an attempt fails with an error that \<^verbatim>\<open>os.IsTimeout\<close>
  reports as a timeout, \<^verbatim>\<open>sign\<close> returns that error and the closure of \<^verbatim>\<open>Sign\<close> hands it
  on as it is, not through \<^verbatim>\<open>backoff.Permanent\<close>: the retry loop finds no
  \<^verbatim>\<open>PermanentError\<close> in it and reads a retryable failure. So the retry loop
  continues: for a digest of valid length, as long as the controller grants a wait,
  \<^verbatim>\<open>Sign\<close> calls the observer (if one is installed), sleeps for the wait and goes on
  with the next attempt, its result being that of the rest of the run; only when the
  controller stops does \<^verbatim>\<open>Sign\<close> return the timeout error.
\<close>

theorem transport_timeout_is_retryable:
  assumes req: "NewRequest a ''POST'' (Endpoint c) = None"
    and resp: "Do a (sign_request c digest) = Inl e"
    and tmo: "IsTimeout e"
  shows "sign c Unmarshal a digest = ((None, Some e), [Sent (sign_request c digest)]) \<and>
         Sign_operation c Unmarshal digest a = ((None, Some e), [Sent (sign_request c digest)]) \<and>
         errors_As_Permanent e = None \<and>
         outcome_of (fst (Sign_operation c Unmarshal digest a)) = RetryableFailure e \<and>
         (length digest \<in> {28, 32, 48, 64} \<and> NextBackOff a (Sign_backoff c) \<noteq> Stop \<longrightarrow>
            Sign c Unmarshal (a # rest) digest =
              map_option
                (\<lambda>(r, evs'). (r, [Sent (sign_request c digest)] @
                                   notification (Notify c) e (NextBackOff a (Sign_backoff c)) @
                                   [Slept (NextBackOff a (Sign_backoff c))] @ evs'))
                (Sign c Unmarshal rest digest)) \<and>
         (length digest \<in> {28, 32, 48, 64} \<and> NextBackOff a (Sign_backoff c) = Stop \<longrightarrow>
            Sign c Unmarshal (a # rest) digest =
              Some ((None, Some e), [Sent (sign_request c digest)]))"
proof -
  have s: "sign c Unmarshal a digest = ((None, Some e), [Sent (sign_request c digest)])"
    using req resp by (simp add: sign_eq)
  then have op: "Sign_operation c Unmarshal digest a = ((None, Some e), [Sent (sign_request c digest)])"
    using tmo by (simp add: Sign_operation_eq)
  have np: "errors_As_Permanent e = None"
    using tmo by (rule IsTimeout_not_Permanent)
  have go: "Sign c Unmarshal (a # rest) digest =
              map_option
                (\<lambda>(r, evs'). (r, [Sent (sign_request c digest)] @
                                   notification (Notify c) e (NextBackOff a (Sign_backoff c)) @
                                   [Slept (NextBackOff a (Sign_backoff c))] @ evs'))
                (Sign c Unmarshal rest digest)"
    if "length digest \<in> {28, 32, 48, 64} \<and> NextBackOff a (Sign_backoff c) \<noteq> Stop"
    using Sign_continue [of digest c Unmarshal a None e rest] that op np by simp
  have halt: "Sign c Unmarshal (a # rest) digest =
              Some ((None, Some e), [Sent (sign_request c digest)])"
    if "length digest \<in> {28, 32, 48, 64} \<and> NextBackOff a (Sign_backoff c) = Stop"
    using Retry_stop [of "Sign_operation c Unmarshal digest" a None e "Sign_backoff c" "Notify c" rest]
      that op np
    by (simp add: Sign_valid_length)
  show ?thesis using s op np go halt by simp
qed

theorem transport_timeout_is_retryable_witness:
  "Sign_operation example_client (\<lambda>bs. Inr bs) example_digest
       (failing (Foreign ''Post: context deadline exceeded (Client.Timeout exceeded while awaiting headers)'' True) Second) =
     ((None, Some (Foreign ''Post: context deadline exceeded (Client.Timeout exceeded while awaiting headers)'' True)),
      [Sent (sign_request example_client example_digest)]) \<and>
   outcome_of (fst (Sign_operation example_client (\<lambda>bs. Inr bs) example_digest
       (failing (Foreign ''Post: context deadline exceeded (Client.Timeout exceeded while awaiting headers)'' True) Second))) =
     RetryableFailure (Foreign ''Post: context deadline exceeded (Client.Timeout exceeded while awaiting headers)'' True) \<and>
   Sign example_client (\<lambda>bs. Inr bs)
     [failing (Foreign ''Post: context deadline exceeded (Client.Timeout exceeded while awaiting headers)'' True) Second,
      responding 200 2 [1, 2] None Second] example_digest =
     Some ((Some [1, 2], None),
           [Sent (sign_request example_client example_digest), Slept Second,
            Sent (sign_request example_client example_digest), BodyRead 2, BodyClosed]) \<and>
   Sign (example_client\<lparr>Notify := Some ()\<rparr>) (\<lambda>bs. Inr bs)
     [failing (Foreign ''Post: context deadline exceeded (Client.Timeout exceeded while awaiting headers)'' True) Second,
      failing (Foreign ''Post: context deadline exceeded (Client.Timeout exceeded while awaiting headers)'' True) Stop,
      responding 200 2 [1, 2] None Second] example_digest =
     Some ((None, Some (Foreign ''Post: context deadline exceeded (Client.Timeout exceeded while awaiting headers)'' True)),
           [Sent (sign_request example_client example_digest),
            Notified (Foreign ''Post: context deadline exceeded (Client.Timeout exceeded while awaiting headers)'' True) Second,
            Slept Second,
            Sent (sign_request example_client example_digest)])"
proof -
  let ?e = "Foreign ''Post: context deadline exceeded (Client.Timeout exceeded while awaiting headers)'' True"
  let ?U = "\<lambda>bs :: byte list. Inr bs :: error + byte list"
  let ?n = "example_client\<lparr>Notify := Some ()\<rparr>"
  have rq: "sign_request ?n example_digest = sign_request example_client example_digest"
    by (simp add: sign_request_def)
  note t1 = transport_timeout_is_retryable [of "failing ?e Second" example_client example_digest ?e
      ?U "[responding 200 2 [1, 2] None Second]"]
  note t2 = transport_timeout_is_retryable [of "failing ?e Second" ?n example_digest ?e
      ?U "[failing ?e Stop, responding 200 2 [1, 2] None Second]"]
  note t3 = transport_timeout_is_retryable [of "failing ?e Stop" ?n example_digest ?e
      ?U "[responding 200 2 [1, 2] None Second]"]
  show ?thesis
    using t1 t2 t3 Sign_example_success [of Second "[]"] rq
    by (simp add: length_example_digest failing_def Stop_def Second_def notification_def
        example_client_def NewClient_def)
qed

text \<open>
  C1, as amended. For an attempt whose response has a status other than 200: if the
  status is 429 or at least 500 (every 5xx, and also 600 and above), \<^verbatim>\<open>sign\<close> fails with
  the \<^verbatim>\<open>Retryable\<close> whose message is "returned non-200 status code N. we can retry",
  the loop reads a retryable failure and, unless the controller stops, \<^verbatim>\<open>Sign\<close>
  notifies, sleeps and goes on with the next attempt; for every other status (below
  500 and not 429) the error "returned non-200 status code N" is made permanent and
  \<^verbatim>\<open>Sign\<close> returns it at once, after this one request.
\<close>

theorem status_classification:
  assumes len: "length digest \<in> {28, 32, 48, 64}"
    and req: "NewRequest a ''POST'' (Endpoint c) = None"
    and resp: "Do a (sign_request c digest) = Inr response"
    and st: "StatusCode response \<noteq> 200"
  shows "(StatusCode response = 429 \<or> 500 \<le> StatusCode response \<longrightarrow>
           (\<exists>err. err = Retryable (''returned non-200 status code '' @ Itoa (StatusCode response) @
                                   ''. we can retry'') \<and>
              sign c Unmarshal a digest = ((None, Some err), [Sent (sign_request c digest), BodyClosed]) \<and>
              outcome_of (fst (Sign_operation c Unmarshal digest a)) = RetryableFailure err \<and>
              (NextBackOff a (Sign_backoff c) \<noteq> Stop \<longrightarrow>
                 Sign c Unmarshal (a # rest) digest =
                   map_option
                     (\<lambda>(r, evs'). (r, [Sent (sign_request c digest), BodyClosed] @
                                        notification (Notify c) err (NextBackOff a (Sign_backoff c)) @
                                        [Slept (NextBackOff a (Sign_backoff c))] @ evs'))
                     (Sign c Unmarshal rest digest)))) \<and>
         (StatusCode response \<noteq> 429 \<and> StatusCode response < 500 \<longrightarrow>
           (\<exists>err. err = Errorf (''returned non-200 status code '' @ Itoa (StatusCode response)) \<and>
              sign c Unmarshal a digest = ((None, Some err), [Sent (sign_request c digest), BodyClosed]) \<and>
              outcome_of (fst (Sign_operation c Unmarshal digest a)) = PermanentFailure err \<and>
              Sign c Unmarshal (a # rest) digest =
                Some ((None, Some err), [Sent (sign_request c digest), BodyClosed])))"
proof (intro conjI impI)
  assume r: "StatusCode response = 429 \<or> 500 \<le> StatusCode response"
  let ?err = "Retryable (''returned non-200 status code '' @ Itoa (StatusCode response) @ ''. we can retry'')"
  have s: "sign c Unmarshal a digest = ((None, Some ?err), [Sent (sign_request c digest), BodyClosed])"
    using req resp r by (simp add: sign_eq)
  then have op: "Sign_operation c Unmarshal digest a =
      ((None, Some ?err), [Sent (sign_request c digest), BodyClosed])"
    by (simp add: Sign_operation_eq)
  have "NextBackOff a (Sign_backoff c) \<noteq> Stop \<longrightarrow>
                 Sign c Unmarshal (a # rest) digest =
                   map_option
                     (\<lambda>(r, evs'). (r, [Sent (sign_request c digest), BodyClosed] @
                                        notification (Notify c) ?err (NextBackOff a (Sign_backoff c)) @
                                        [Slept (NextBackOff a (Sign_backoff c))] @ evs'))
                     (Sign c Unmarshal rest digest)"
    using Sign_continue [of digest c Unmarshal a None ?err rest] len op by simp
  then show "\<exists>err. err = ?err \<and>
      sign c Unmarshal a digest = ((None, Some err), [Sent (sign_request c digest), BodyClosed]) \<and>
      outcome_of (fst (Sign_operation c Unmarshal digest a)) = RetryableFailure err \<and>
      (NextBackOff a (Sign_backoff c) \<noteq> Stop \<longrightarrow>
         Sign c Unmarshal (a # rest) digest =
           map_option
             (\<lambda>(r, evs'). (r, [Sent (sign_request c digest), BodyClosed] @
                                notification (Notify c) err (NextBackOff a (Sign_backoff c)) @
                                [Slept (NextBackOff a (Sign_backoff c))] @ evs'))
             (Sign c Unmarshal rest digest))"
    using s op by simp
next
  assume p: "StatusCode response \<noteq> 429 \<and> StatusCode response < 500"
  let ?err = "Errorf (''returned non-200 status code '' @ Itoa (StatusCode response))"
  have s: "sign c Unmarshal a digest = ((None, Some ?err), [Sent (sign_request c digest), BodyClosed])"
    using req resp p st by (simp add: sign_eq)
  then have op: "Sign_operation c Unmarshal digest a =
      ((None, Some (PermanentError ?err)), [Sent (sign_request c digest), BodyClosed])"
    by (simp add: Sign_operation_eq)
  have "Sign c Unmarshal (a # rest) digest =
      Some ((None, Some ?err), [Sent (sign_request c digest), BodyClosed])"
    using Sign_permanent [of digest c Unmarshal a None ?err rest] len op by simp
  then show "\<exists>err. err = ?err \<and>
      sign c Unmarshal a digest = ((None, Some err), [Sent (sign_request c digest), BodyClosed]) \<and>
      outcome_of (fst (Sign_operation c Unmarshal digest a)) = PermanentFailure err \<and>
      Sign c Unmarshal (a # rest) digest =
        Some ((None, Some err), [Sent (sign_request c digest), BodyClosed])"
    using s op by simp
qed

theorem status_classification_witness:
  "Sign example_client (\<lambda>bs. Inr bs)
     [responding 503 0 [] None Second, responding 200 2 [1, 2] None Second] example_digest =
     Some ((Some [1, 2], None),
           [Sent (sign_request example_client example_digest), BodyClosed, Slept Second,
            Sent (sign_request example_client example_digest), BodyRead 2, BodyClosed]) \<and>
   outcome_of (fst (Sign_operation example_client (\<lambda>bs. Inr bs) example_digest
       (responding 429 0 [] None Second))) =
     RetryableFailure (Retryable ''returned non-200 status code 429. we can retry'') \<and>
   Sign example_client (\<lambda>bs. Inr bs)
     [responding 404 0 [] None Second, responding 200 2 [1, 2] None Second] example_digest =
     Some ((None, Some (Errorf ''returned non-200 status code 404'')),
           [Sent (sign_request example_client example_digest), BodyClosed])"
  using status_classification [of example_digest "responding 503 0 [] None Second" example_client
      "\<lparr>StatusCode = 503, ContentLength = 0, Body = \<lparr>pending = [], read_err = None\<rparr>\<rparr>"
      "\<lambda>bs. Inr bs" "[responding 200 2 [1, 2] None Second]"]
    status_classification [of example_digest "responding 429 0 [] None Second" example_client
      "\<lparr>StatusCode = 429, ContentLength = 0, Body = \<lparr>pending = [], read_err = None\<rparr>\<rparr>"
      "\<lambda>bs. Inr bs" "[]"]
    status_classification [of example_digest "responding 404 0 [] None Second" example_client
      "\<lparr>StatusCode = 404, ContentLength = 0, Body = \<lparr>pending = [], read_err = None\<rparr>\<rparr>"
      "\<lambda>bs. Inr bs" "[responding 200 2 [1, 2] None Second]"]
    Sign_example_success [of Second "[]"]
  by (simp add: length_example_digest responding_def Stop_def Second_def notification_def
      example_client_def NewClient_def Itoa_def nat_digits.simps)

text \<open>
  C1 as stated fails at status 600, which is neither 200, nor 429, nor a 5xx: the
  attempt is a retryable failure, not a permanent one, and \<^verbatim>\<open>Sign\<close> makes a second
  request.
\<close>

theorem status_600_counterexample:
  "outcome_of (fst (Sign_operation example_client (\<lambda>bs. Inr bs) example_digest
       (responding 600 0 [] None Second))) =
     RetryableFailure (Retryable ''returned non-200 status code 600. we can retry'') \<and>
   outcome_of (fst (Sign_operation example_client (\<lambda>bs. Inr bs) example_digest
       (responding 600 0 [] None Second))) \<noteq>
     PermanentFailure (Errorf ''returned non-200 status code 600'') \<and>
   Sign example_client (\<lambda>bs. Inr bs)
     [responding 600 0 [] None Second, responding 200 2 [1, 2] None Second] example_digest =
     Some ((Some [1, 2], None),
           [Sent (sign_request example_client example_digest), BodyClosed, Slept Second,
            Sent (sign_request example_client example_digest), BodyRead 2, BodyClosed])"
proof -
  have op: "Sign_operation example_client (\<lambda>bs. Inr bs) example_digest (responding 600 0 [] None Second) =
      ((None, Some (Retryable ''returned non-200 status code 600. we can retry'')),
       [Sent (sign_request example_client example_digest), BodyClosed])"
    by (simp add: Sign_operation_eq sign_eq responding_def Itoa_def nat_digits.simps)
  have "Sign example_client (\<lambda>bs. Inr bs)
     (responding 600 0 [] None Second # [responding 200 2 [1, 2] None Second]) example_digest =
     Some ((Some [1, 2], None),
           [Sent (sign_request example_client example_digest), BodyClosed, Slept Second,
            Sent (sign_request example_client example_digest), BodyRead 2, BodyClosed])"
    using Sign_continue [of example_digest example_client "\<lambda>bs. Inr bs" "responding 600 0 [] None Second"
        None "Retryable ''returned non-200 status code 600. we can retry''" "[responding 200 2 [1, 2] None Second]"]
      Sign_example_success [of Second "[]"] op
    by (simp add: length_example_digest responding_def Stop_def Second_def notification_def
        example_client_def NewClient_def)
  then show ?thesis using op by simp
qed

text \<open>
  C2, as amended. In a run where every attempt before the last is a retryable failure
  after which the controller grants a wait, and the last attempt is a retryable
  failure after which the controller stops because the budget is used up, \<^verbatim>\<open>Sign\<close>
  returns a nil result together with the error of the last attempt itself, exactly
  as \<^verbatim>\<open>sign\<close> returned it (no error type of its own wraps it); it does not return a nil
  result with a nil error.
\<close>

theorem Sign_budget_exhausted:
  assumes len: "length digest \<in> {28, 32, 48, 64}"
    and pre: "\<forall>a \<in> set attempts. retryable_failure (fst (Sign_operation c Unmarshal digest a)) \<and>
                NextBackOff a (Sign_backoff c) \<noteq> Stop"
    and last: "outcome_of (fst (Sign_operation c Unmarshal digest final)) = RetryableFailure e"
    and stop: "NextBackOff final (Sign_backoff c) = Stop"
  shows "fst (sign c Unmarshal final digest) = (None, Some e) \<and>
         (\<exists>evs. Sign c Unmarshal (attempts @ final # rest) digest = Some ((None, Some e), evs)) \<and>
         (\<forall>evs. Sign c Unmarshal (attempts @ final # rest) digest \<noteq> Some ((None, None), evs))"
proof -
  note l = Sign_operation_retryable [OF last]
  have "\<exists>evs. RetryNotifyWithData (Sign_operation c Unmarshal digest) (Sign_backoff c) (Notify c)
            (attempts @ final # rest) = Some ((None, Some e), evs)"
    using Retry_exhausted [of attempts "Sign_operation c Unmarshal digest" "Sign_backoff c" final None e
        "Notify c" rest] pre l(1) l(3) stop
    by simp
  then have "\<exists>evs. Sign c Unmarshal (attempts @ final # rest) digest = Some ((None, Some e), evs)"
    using len by (simp add: Sign_valid_length)
  then show ?thesis using l(2) by auto
qed

theorem Sign_budget_exhausted_witness:
  "Sign example_client (\<lambda>bs. Inr bs)
     [responding 500 0 [] None Second, responding 503 0 [] None Stop] example_digest =
     Some ((None, Some (Retryable ''returned non-200 status code 503. we can retry'')),
           [Sent (sign_request example_client example_digest), BodyClosed, Slept Second,
            Sent (sign_request example_client example_digest), BodyClosed])"
proof -
  have op1: "Sign_operation example_client (\<lambda>bs. Inr bs) example_digest (responding 500 0 [] None Second) =
      ((None, Some (Retryable ''returned non-200 status code 500. we can retry'')),
       [Sent (sign_request example_client example_digest), BodyClosed])"
    by (simp add: Sign_operation_eq sign_eq responding_def Itoa_def nat_digits.simps)
  have op2: "Sign_operation example_client (\<lambda>bs. Inr bs) example_digest (responding 503 0 [] None Stop) =
      ((None, Some (Retryable ''returned non-200 status code 503. we can retry'')),
       [Sent (sign_request example_client example_digest), BodyClosed])"
    by (simp add: Sign_operation_eq sign_eq responding_def Itoa_def nat_digits.simps)
  have "\<exists>evs. Sign example_client (\<lambda>bs. Inr bs)
     ([responding 500 0 [] None Second] @ responding 503 0 [] None Stop # []) example_digest =
     Some ((None, Some (Retryable ''returned non-200 status code 503. we can retry'')), evs)"
    using Sign_budget_exhausted [of example_digest "[responding 500 0 [] None Second]" example_client
        "\<lambda>bs. Inr bs" "responding 503 0 [] None Stop"
        "Retryable ''returned non-200 status code 503. we can retry''" "[]"] op1 op2
    by (simp add: length_example_digest retryable_failure_iff responding_def Stop_def Second_def)
  then show ?thesis
    using op1 op2
    by (simp add: Sign_valid_length length_example_digest responding_def Stop_def Second_def
        notification_def example_client_def NewClient_def)
qed

text \<open>
  C2 as stated fails: after two attempts answered with status 500, the second at the
  end of the budget, the error that \<^verbatim>\<open>Sign\<close> returns is the \<^verbatim>\<open>Retryable\<close> of the last
  attempt, and \<^verbatim>\<open>errors.Unwrap\<close> finds nothing inside it: it is no wrapper.
\<close>

theorem exhaustion_returns_bare_error_counterexample:
  "Sign example_client (\<lambda>bs. Inr bs)
     [responding 500 0 [] None Second, responding 500 0 [] None Stop] example_digest =
     Some ((None, Some (Retryable ''returned non-200 status code 500. we can retry'')),
           [Sent (sign_request example_client example_digest), BodyClosed, Slept Second,
            Sent (sign_request example_client example_digest), BodyClosed]) \<and>
   fst (sign example_client (\<lambda>bs. Inr bs) (responding 500 0 [] None Stop) example_digest) =
     (None, Some (Retryable ''returned non-200 status code 500. we can retry'')) \<and>
   Unwrap (Retryable ''returned non-200 status code 500. we can retry'') = None"
proof -
  have op1: "Sign_operation example_client (\<lambda>bs. Inr bs) example_digest (responding 500 0 [] None next) =
      ((None, Some (Retryable ''returned non-200 status code 500. we can retry'')),
       [Sent (sign_request example_client example_digest), BodyClosed])" for "next"
    by (simp add: Sign_operation_eq sign_eq responding_def Itoa_def nat_digits.simps)
  have s: "fst (sign example_client (\<lambda>bs. Inr bs) (responding 500 0 [] None Stop) example_digest) =
     (None, Some (Retryable ''returned non-200 status code 500. we can retry''))"
    by (simp add: sign_eq responding_def Itoa_def nat_digits.simps)
  show ?thesis
    using op1 s
    by (simp add: Sign_valid_length length_example_digest responding_def Stop_def Second_def
        notification_def example_client_def NewClient_def)
qed

text \<open>
  C5, as amended. When a response with status 200 (and a declared length of at most
  768) is read into the buffer of 769 bytes and the read yields more than 768 bytes,
  reporting no error or an error that is neither a timeout nor a \<^verbatim>\<open>Retryable\<close>, the
  attempt fails with an error that the closure of \<^verbatim>\<open>Sign\<close> makes permanent (the size
  error when the read reported none). Whatever the environment answers, one attempt
  buffers at most 769 bytes of the body.
\<close>

theorem oversized_body_read:
  "(NewRequest a ''POST'' (Endpoint c) = None \<and>
    Do a (sign_request c digest) = Inr response \<and>
    StatusCode response = 200 \<and>
    ContentLength response \<le> MaxHttpDownloadSize \<and>
    int (length (fst (Read (Body response) (nat (MaxHttpDownloadSize + 1))))) > MaxHttpDownloadSize \<and>
    (read_err (Body response) = None \<or>
     (\<exists>e. read_err (Body response) = Some e \<and> \<not> errors_As_Retryable e \<and> \<not> IsTimeout e)) \<longrightarrow>
    (\<exists>err evs.
       evs = [Sent (sign_request c digest), BodyRead 769, BodyClosed] \<and>
       sign c Unmarshal a digest = ((None, Some err), evs) \<and>
       (read_err (Body response) = None \<longrightarrow>
          err = Errorf ''the maximum allowed response size is 768 bytes. the returned response is bigger'') \<and>
       Sign_operation c Unmarshal digest a = ((None, Some (PermanentError err)), evs) \<and>
       outcome_of (fst (Sign_operation c Unmarshal digest a)) = PermanentFailure err)) \<and>
   buffered (snd (sign c Unmarshal a digest)) \<le> 769"
proof (intro conjI impI)
  show "buffered (snd (sign c Unmarshal a digest)) \<le> 769"
    by (rule buffered_sign)
next
  assume h: "NewRequest a ''POST'' (Endpoint c) = None \<and>
    Do a (sign_request c digest) = Inr response \<and>
    StatusCode response = 200 \<and>
    ContentLength response \<le> MaxHttpDownloadSize \<and>
    int (length (fst (Read (Body response) (nat (MaxHttpDownloadSize + 1))))) > MaxHttpDownloadSize \<and>
    (read_err (Body response) = None \<or>
     (\<exists>e. read_err (Body response) = Some e \<and> \<not> errors_As_Retryable e \<and> \<not> IsTimeout e))"
  then have n: "length (take 769 (pending (Body response))) = 769"
    by (simp add: Read_def MaxHttpDownloadSize_def)
  let ?big = "Errorf ''the maximum allowed response size is 768 bytes. the returned response is bigger''"
  let ?evs = "[Sent (sign_request c digest), BodyRead 769, BodyClosed]"
  obtain err where s: "sign c Unmarshal a digest = ((None, Some err), ?evs)"
    and nr: "\<not> errors_As_Retryable err" "\<not> IsTimeout err"
    and big: "read_err (Body response) = None \<longrightarrow> err = ?big"
  proof (cases "read_err (Body response)")
    case None
    then have "sign c Unmarshal a digest = ((None, Some ?big), ?evs)"
      using h n by (simp add: sign_eq Let_def MaxHttpDownloadSize_def del: length_take)
    then show ?thesis using that [of ?big] None by simp
  next
    case (Some e)
    then have "sign c Unmarshal a digest = ((None, Some e), ?evs)"
      using h n by (simp add: sign_eq Let_def MaxHttpDownloadSize_def del: length_take)
    then show ?thesis using that [of e] Some h by simp
  qed
  have op: "Sign_operation c Unmarshal digest a = ((None, Some (PermanentError err)), ?evs)"
    using s nr by (simp add: Sign_operation_eq)
  show "\<exists>err evs. evs = ?evs \<and>
       sign c Unmarshal a digest = ((None, Some err), evs) \<and>
       (read_err (Body response) = None \<longrightarrow> err = ?big) \<and>
       Sign_operation c Unmarshal digest a = ((None, Some (PermanentError err)), evs) \<and>
       outcome_of (fst (Sign_operation c Unmarshal digest a)) = PermanentFailure err"
    using s op big by simp
qed

theorem oversized_body_read_witness:
  "Sign_operation example_client (\<lambda>bs. Inr bs) example_digest
     (responding 200 (- 1) (replicate 769 7) None Second) =
     ((None, Some (PermanentError
        (Errorf ''the maximum allowed response size is 768 bytes. the returned response is bigger''))),
      [Sent (sign_request example_client example_digest), BodyRead 769, BodyClosed]) \<and>
   buffered (snd (sign example_client (\<lambda>bs. Inr bs)
     (responding 200 (- 1) (replicate 1000 7) None Second) example_digest)) \<le> 769"
  using oversized_body_read [of "responding 200 (- 1) (replicate 769 7) None Second"
      example_client example_digest
      "\<lparr>StatusCode = 200, ContentLength = - 1, Body = \<lparr>pending = replicate 769 7, read_err = None\<rparr>\<rparr>"
      "\<lambda>bs. Inr bs"]
    oversized_body_read [of "responding 200 (- 1) (replicate 1000 7) None Second"
      example_client example_digest
      "\<lparr>StatusCode = 200, ContentLength = - 1, Body = \<lparr>pending = replicate 1000 7, read_err = None\<rparr>\<rparr>"
      "\<lambda>bs. Inr bs"]
  by (simp add: responding_def MaxHttpDownloadSize_def Read_def)

text \<open>
  C5 as stated fails when the read that fills all 769 bytes of the buffer also
  reports a timeout: \<^verbatim>\<open>sign\<close> returns the error of the read before it looks at the
  size, and the closure hands a timeout on as it is, so the attempt is a retryable
  failure, not a permanent one.
\<close>

theorem oversized_read_with_timeout_counterexample:
  "length (fst (Read \<lparr>pending = replicate 769 7,
                      read_err = Some (Foreign ''context deadline exceeded (Client.Timeout or context cancellation while reading body)'' True)\<rparr>
             (nat (MaxHttpDownloadSize + 1)))) = 769 \<and>
   Sign_operation example_client (\<lambda>bs. Inr bs) example_digest
     (responding 200 (- 1) (replicate 769 7)
        (Some (Foreign ''context deadline exceeded (Client.Timeout or context cancellation while reading body)'' True))
        Second) =
     ((None, Some (Foreign ''context deadline exceeded (Client.Timeout or context cancellation while reading body)'' True)),
      [Sent (sign_request example_client example_digest), BodyRead 769, BodyClosed]) \<and>
   outcome_of (fst (Sign_operation example_client (\<lambda>bs. Inr bs) example_digest
     (responding 200 (- 1) (replicate 769 7)
        (Some (Foreign ''context deadline exceeded (Client.Timeout or context cancellation while reading body)'' True))
        Second))) =
     RetryableFailure (Foreign ''context deadline exceeded (Client.Timeout or context cancellation while reading body)'' True)"
  by (simp add: Sign_operation_eq sign_eq responding_def Read_def MaxHttpDownloadSize_def)

text \<open>
  C9, as amended. When the single read of the body of a response with status 200
  (and a declared length of at most 768) reports an error, \<^verbatim>\<open>sign\<close> returns that error
  and no result, whatever bytes the read delivered and whatever \<^verbatim>\<open>Unmarshal\<close> would
  make of them. If the error is neither a \<^verbatim>\<open>Retryable\<close> nor a timeout, the closure of
  \<^verbatim>\<open>Sign\<close> makes it permanent; that includes \<^verbatim>\<open>io.EOF\<close>, the end of stream of an empty
  or completely read body. If the error is a timeout, the closure hands it on as it
  is and the failure is a retryable one.
\<close>

theorem body_read_error:
  assumes req: "NewRequest a ''POST'' (Endpoint c) = None"
    and resp: "Do a (sign_request c digest) = Inr response"
    and st: "StatusCode response = 200"
    and cl: "ContentLength response \<le> MaxHttpDownloadSize"
    and rerr: "read_err (Body response) = Some e"
  shows "(\<exists>evs. evs = [Sent (sign_request c digest),
                       BodyRead (length (fst (Read (Body response) (nat (MaxHttpDownloadSize + 1))))),
                       BodyClosed] \<and>
           sign c Unmarshal a digest = ((None, Some e), evs) \<and>
           (\<not> errors_As_Retryable e \<and> \<not> IsTimeout e \<longrightarrow>
              Sign_operation c Unmarshal digest a = ((None, Some (PermanentError e)), evs) \<and>
              outcome_of (fst (Sign_operation c Unmarshal digest a)) = PermanentFailure e) \<and>
           (IsTimeout e \<longrightarrow>
              Sign_operation c Unmarshal digest a = ((None, Some e), evs) \<and>
              outcome_of (fst (Sign_operation c Unmarshal digest a)) = RetryableFailure e)) \<and>
         (e = EOF \<longrightarrow> outcome_of (fst (Sign_operation c Unmarshal digest a)) = PermanentFailure EOF)"
proof -
  let ?evs = "[Sent (sign_request c digest),
               BodyRead (length (fst (Read (Body response) (nat (MaxHttpDownloadSize + 1))))),
               BodyClosed]"
  have s: "sign c Unmarshal a digest = ((None, Some e), ?evs)"
    using req resp st cl rerr by (simp add: sign_eq Let_def MaxHttpDownloadSize_def Read_def)
  have perm: "Sign_operation c Unmarshal digest a = ((None, Some (PermanentError e)), ?evs) \<and>
      outcome_of (fst (Sign_operation c Unmarshal digest a)) = PermanentFailure e"
    if "\<not> errors_As_Retryable e \<and> \<not> IsTimeout e"
    using s that by (simp add: Sign_operation_eq)
  have retry: "Sign_operation c Unmarshal digest a = ((None, Some e), ?evs) \<and>
      outcome_of (fst (Sign_operation c Unmarshal digest a)) = RetryableFailure e"
    if "IsTimeout e"
    using s that IsTimeout_not_Permanent [OF that] by (simp add: Sign_operation_eq)
  have eof: "outcome_of (fst (Sign_operation c Unmarshal digest a)) = PermanentFailure EOF"
    if "e = EOF"
    using perm that by (simp add: EOF_def)
  show ?thesis using s perm retry eof by blast
qed

theorem body_read_error_witness:
  "Sign_operation example_client (\<lambda>bs. Inr bs) example_digest
     (responding 200 2 [1, 2] (Some EOF) Second) =
     ((None, Some (PermanentError EOF)),
      [Sent (sign_request example_client example_digest), BodyRead 2, BodyClosed]) \<and>
   Sign_operation example_client (\<lambda>bs. Inr bs) example_digest
     (responding 200 0 [] (Some EOF) Second) =
     ((None, Some (PermanentError EOF)),
      [Sent (sign_request example_client example_digest), BodyRead 0, BodyClosed]) \<and>
   outcome_of (fst (Sign_operation example_client (\<lambda>bs. Inr bs) example_digest
     (responding 200 0 [] (Some (Foreign ''timeout while reading body'' True)) Second))) =
     RetryableFailure (Foreign ''timeout while reading body'' True)"
  using body_read_error [of "responding 200 2 [1, 2] (Some EOF) Second" example_client example_digest
      "\<lparr>StatusCode = 200, ContentLength = 2, Body = \<lparr>pending = [1, 2], read_err = Some EOF\<rparr>\<rparr>"
      EOF "\<lambda>bs. Inr bs"]
    body_read_error [of "responding 200 0 [] (Some EOF) Second" example_client example_digest
      "\<lparr>StatusCode = 200, ContentLength = 0, Body = \<lparr>pending = [], read_err = Some EOF\<rparr>\<rparr>"
      EOF "\<lambda>bs. Inr bs"]
    body_read_error [of
      "responding 200 0 [] (Some (Foreign ''timeout while reading body'' True)) Second" example_client
      example_digest
      "\<lparr>StatusCode = 200, ContentLength = 0,
        Body = \<lparr>pending = [], read_err = Some (Foreign ''timeout while reading body'' True)\<rparr>\<rparr>"
      "Foreign ''timeout while reading body'' True" "\<lambda>bs. Inr bs"]
  by (simp add: responding_def MaxHttpDownloadSize_def Read_def EOF_def)

text \<open>
  C9 as stated fails when the error of the read is a timeout (the client's
  \<^verbatim>\<open>Timeout\<close> running out while the body is read): the closure hands the error on as
  it is, and the attempt is a retryable failure, not a permanent one.
\<close>

theorem read_timeout_counterexample:
  "Sign_operation example_client (\<lambda>bs. Inr bs) example_digest
     (responding 200 (- 1) []
        (Some (Foreign ''context deadline exceeded (Client.Timeout or context cancellation while reading body)'' True))
        Second) =
     ((None, Some (Foreign ''context deadline exceeded (Client.Timeout or context cancellation while reading body)'' True)),
      [Sent (sign_request example_client example_digest), BodyRead 0, BodyClosed]) \<and>
   outcome_of (fst (Sign_operation example_client (\<lambda>bs. Inr bs) example_digest
     (responding 200 (- 1) []
        (Some (Foreign ''context deadline exceeded (Client.Timeout or context cancellation while reading body)'' True))
        Second))) =
     RetryableFailure (Foreign ''context deadline exceeded (Client.Timeout or context cancellation while reading body)'' True)"
  by (simp add: Sign_operation_eq sign_eq responding_def)

text \<open>
  C7. For a digest of one of the four valid lengths, the payload that \<^verbatim>\<open>sign\<close> builds
  holds the URL-safe base64 encoding of the digest in its one field; it is marshalled
  to the JSON document \<^verbatim>\<open>{"digest": field}\<close>, which is the body of the request that is
  sent. Decoding the field gives back exactly the bytes of the digest, no other byte
  sequence has the same encoding, and the field is a whole number of four-character
  groups.
\<close>

theorem request_digest_round_trip:
  assumes len: "length digest \<in> {28, 32, 48, 64}"
    and req: "NewRequest a ''POST'' (Endpoint c) = None"
  shows "\<exists>field evs.
           field = EncodeToString digest \<and>
           Marshal (payload_value \<lparr>Digest = field\<rparr>) = Inr (JObject [(''digest'', JString field)]) \<and>
           snd (sign c Unmarshal a digest) =
             Sent \<lparr>ReqMethod = ''POST'', URL = Endpoint c,
                   Header = [(''Content-Type'', ''application/json''),
                             (''User-Agent'', ''tssig-client-go'')],
                   ReqBody = JObject [(''digest'', JString field)]\<rparr> # evs \<and>
           DecodeString field = Some digest \<and>
           (\<forall>d. EncodeToString d = field \<longrightarrow> d = digest) \<and>
           length field = 4 * ((length digest + 2) div 3)"
proof -
  obtain evs where "snd (sign c Unmarshal a digest) = Sent (sign_request c digest) # evs"
    using sign_sends_request [OF req] by blast
  moreover have "\<forall>d. EncodeToString d = EncodeToString digest \<longrightarrow> d = digest"
    using EncodeToString_inj by blast
  ultimately show ?thesis
    by (simp add: sign_request_def Marshal_payload DecodeString_EncodeToString length_EncodeToString)
qed

theorem request_digest_round_trip_witness:
  "snd (sign example_client (\<lambda>bs. Inr bs) (responding 200 2 [1, 2] None Second) example_digest) =
     [Sent \<lparr>ReqMethod = ''POST'', URL = ''https://tssig.example/sign'',
            Header = [(''Content-Type'', ''application/json''), (''User-Agent'', ''tssig-client-go'')],
            ReqBody = JObject [(''digest'', JString ''AAAAAAAAAAAAAAAAAAAAAAAAAAAAAAAAAAAAAAAAAAA='')]\<rparr>,
      BodyRead 2, BodyClosed] \<and>
   DecodeString ''AAAAAAAAAAAAAAAAAAAAAAAAAAAAAAAAAAAAAAAAAAA='' = Some example_digest \<and>
   length ''AAAAAAAAAAAAAAAAAAAAAAAAAAAAAAAAAAAAAAAAAAA='' = 44"
proof -
  have s: "snd (sign example_client (\<lambda>bs. Inr bs) (responding 200 2 [1, 2] None Second) example_digest) =
     [Sent (sign_request example_client example_digest), BodyRead 2, BodyClosed]"
    by (simp add: sign_eq responding_def)
  show ?thesis
    using request_digest_round_trip [of example_digest "responding 200 2 [1, 2] None Second"
        example_client "\<lambda>bs. Inr bs"] s
    by (simp add: length_example_digest responding_def EncodeToString_example sign_request_def
        example_client_def NewClient_def)
qed

text \<open>
  C10. For every digest, marshalling the request payload succeeds, with the document
  \<^verbatim>\<open>{"digest": field}\<close> as result, so the error branch after \<^verbatim>\<open>json.Marshal\<close> (lines
  108-110) is never taken: every error that \<^verbatim>\<open>sign\<close> returns is the error of
  \<^verbatim>\<open>http.NewRequest\<close>, of the transport call or of the read of the body, one of the
  package's own four messages about the response, or the error of unmarshalling the
  response.
\<close>

theorem request_payload_always_marshals:
  "Marshal (payload_value \<lparr>Digest = EncodeToString digest\<rparr>) =
     Inr (JObject [(''digest'', JString (EncodeToString digest))]) \<and>
   (sign c Unmarshal a digest = ((r, Some e), evs) \<longrightarrow>
      NewRequest a ''POST'' (Endpoint c) = Some e \<or>
      Do a (sign_request c digest) = Inl e \<or>
      (\<exists>response. Do a (sign_request c digest) = Inr response \<and>
         (e = Retryable (''returned non-200 status code '' @ Itoa (StatusCode response) @ ''. we can retry'') \<or>
          e = Errorf (''returned non-200 status code '' @ Itoa (StatusCode response)) \<or>
          e = Errorf (''the maximum allowed response size is 768 bytes. the returned response is '' @
                      Itoa (ContentLength response) @ '' bytes'') \<or>
          e = Errorf ''the maximum allowed response size is 768 bytes. the returned response is bigger'' \<or>
          read_err (Body response) = Some e \<or>
          Unmarshal (fst (Read (Body response) (nat (MaxHttpDownloadSize + 1)))) = Inl e)))"
proof (intro conjI impI)
  show "Marshal (payload_value \<lparr>Digest = EncodeToString digest\<rparr>) =
     Inr (JObject [(''digest'', JString (EncodeToString digest))])"
    by (rule Marshal_payload)
next
  assume "sign c Unmarshal a digest = ((r, Some e), evs)"
  then show "NewRequest a ''POST'' (Endpoint c) = Some e \<or>
      Do a (sign_request c digest) = Inl e \<or>
      (\<exists>response. Do a (sign_request c digest) = Inr response \<and>
         (e = Retryable (''returned non-200 status code '' @ Itoa (StatusCode response) @ ''. we can retry'') \<or>
          e = Errorf (''returned non-200 status code '' @ Itoa (StatusCode response)) \<or>
          e = Errorf (''the maximum allowed response size is 768 bytes. the returned response is '' @
                      Itoa (ContentLength response) @ '' bytes'') \<or>
          e = Errorf ''the maximum allowed response size is 768 bytes. the returned response is bigger'' \<or>
          read_err (Body response) = Some e \<or>
          Unmarshal (fst (Read (Body response) (nat (MaxHttpDownloadSize + 1)))) = Inl e))"
    by (auto simp add: sign_eq Let_def Read_def MaxHttpDownloadSize_def
        split: option.splits sum.splits if_splits)
qed

theorem request_payload_always_marshals_witness:
  "Marshal (payload_value \<lparr>Digest = EncodeToString example_digest\<rparr>) =
     Inr (JObject [(''digest'', JString ''AAAAAAAAAAAAAAAAAAAAAAAAAAAAAAAAAAAAAAAAAAA='')]) \<and>
   sign example_client (\<lambda>bs. Inl (Foreign ''unexpected end of JSON input'' False))
       (responding 200 2 [1, 2] None Second) example_digest =
     ((None :: unit option, Some (Foreign ''unexpected end of JSON input'' False)),
      [Sent (sign_request example_client example_digest), BodyRead 2, BodyClosed])"
proof -
  have s: "sign example_client (\<lambda>bs. Inl (Foreign ''unexpected end of JSON input'' False))
       (responding 200 2 [1, 2] None Second) example_digest =
     ((None :: unit option, Some (Foreign ''unexpected end of JSON input'' False)),
      [Sent (sign_request example_client example_digest), BodyRead 2, BodyClosed])"
    by (simp add: sign_eq responding_def)
  show ?thesis
    using request_payload_always_marshals [of example_digest example_client
        "\<lambda>bs. Inl (Foreign ''unexpected end of JSON input'' False) :: error + unit"
        "responding 200 2 [1, 2] None Second" None "Foreign ''unexpected end of JSON input'' False"
        "[Sent (sign_request example_client example_digest), BodyRead 2, BodyClosed]"] s
    by (simp add: EncodeToString_example)
qed

end
